theory Spec2Isabelle
  imports Main "HOL-Library.Finite_Map" "HOL-Library.Word"
begin

section \<open>The arena allocator of c-exception\<close>

text \<open>
  The arena allocator is C code over a heap of \<^verbatim>\<open>struct arena_s\<close> objects that point
  at each other through \<^verbatim>\<open>prev\<close>, two process-wide variables (\<^verbatim>\<open>free_list\<close>,
  \<^verbatim>\<open>num_free\<close>) and the system allocator. The embedding keeps all of it in one state
  record that every operation takes and returns.

  \<^item> A pointer (\<^verbatim>\<open>arena_t\<close>, \<^verbatim>\<open>char *\<close>, \<^verbatim>\<open>void *\<close>) is an integer address;
    \<^verbatim>\<open>NULL\<close> is 0. Addresses are not bounded: a pointer computation that leaves the
    address space is not described.
  \<^item> \<^verbatim>\<open>long\<close> and \<^verbatim>\<open>size_t\<close> are 64 bits wide. A value of either type is an integer
    in the range of the type, and every computation the source makes in one of the two
    types is written with the wrap-around of that type (\<open>to_long\<close>, \<open>to_size_t\<close> below).
  \<^item> The store \<open>heap\<close> maps the address of every live \<^verbatim>\<open>struct arena_s\<close> (an arena handle,
    or the header written at the start of a chunk) to its fields. It is a finite map.
    Two pointers with the same address are the same object, so the aliasing of the source
    is the aliasing of the model.
  \<^item> \<open>blocks\<close> is the system allocator's table of live blocks with their sizes, \<open>mem\<close> the
    bytes of memory that \<^verbatim>\<open>memset\<close> writes. Header objects are kept in \<open>heap\<close>, apart from
    \<open>mem\<close>: how the fields of a header are laid out over the bytes that follow it is
    not described.
  \<^item> \<open>sys\<close> is the list of addresses the system allocator is going to answer with, one
    per request, in order. The answer 0 (\<^verbatim>\<open>NULL\<close>) is a failed request, and so is every
    request made after the list has run out.
  \<^item> A raise is a result \<open>Inl e\<close>. \<open>Fault\<close> stands for undefined behaviour of the C code:
    an access through \<^verbatim>\<open>NULL\<close> or through a pointer at which no object lives, or the
    release of a block the allocator does not hold.
\<close>

type_synonym addr = int

record arena_s =
  type :: int
  prev :: addr
  avail :: addr
  limit :: addr
  base :: addr
  bytes :: int
  total :: int

datatype error = OutOfMemory | AssertionFailure | Fault

record state =
  heap :: "(addr, arena_s) fmap"
  blocks :: "(addr, int) fmap"
  mem :: "addr \<Rightarrow> 8 word"
  free_list :: addr
  num_free :: int
  sys :: "addr list"

text \<open>
  What \<^verbatim>\<open>raii.h\<close> declares is not part of the sources at hand. The sizes and tags it
  fixes are parameters of the model: \<^verbatim>\<open>sizeof(union header)\<close>, \<^verbatim>\<open>sizeof(struct arena_s)\<close>,
  the values of the enumerators \<^verbatim>\<open>RAII_ARENA\<close> and \<^verbatim>\<open>RAII_STRUCT\<close>, and whether
  \<^verbatim>\<open>RAII_ASSERT\<close> is compiled in.
\<close>

record config =
  sizeof_header :: int
  sizeof_arena :: int
  RAII_ARENA :: int
  RAII_STRUCT :: int
  asserts :: bool

text \<open>\<^verbatim>\<open>#ifndef THRESHOLD / #define THRESHOLD 10\<close>\<close>

definition THRESHOLD :: int where
  "THRESHOLD = 10"

text \<open>\<^verbatim>\<open>static arena_t free_list = NULL; static int num_free = 0;\<close> and nothing allocated.\<close>

definition start :: "addr list \<Rightarrow> state" where
  "start answers =
     \<lparr>heap = fmempty, blocks = fmempty, mem = (\<lambda>_. 0), free_list = 0, num_free = 0,
      sys = answers\<rparr>"

subsection \<open>Machine integers\<close>

text \<open>
  \<open>to_size_t x\<close> is the value of \<open>x\<close> converted to \<^verbatim>\<open>size_t\<close>, an unsigned type of 64
  bits: \<open>x\<close> modulo \<open>2 ^ 64\<close>. It is also what an addition, a subtraction or a
  multiplication in \<^verbatim>\<open>size_t\<close> makes of the exact result \<open>x\<close>.
\<close>

definition to_size_t :: "int \<Rightarrow> int" where
  "to_size_t x = x mod 18446744073709551616"

text \<open>\<^verbatim>\<open>LONG_MAX\<close> and \<^verbatim>\<open>LONG_MIN\<close> of a \<^verbatim>\<open>long\<close> of 64 bits.\<close>

definition LONG_MAX :: int where
  "LONG_MAX = 9223372036854775807"

definition LONG_MIN :: int where
  "LONG_MIN = - 9223372036854775808"

text \<open>
  \<open>to_long x\<close> is the value of \<open>x\<close> converted to \<^verbatim>\<open>long\<close>, in two's complement: the
  integer between \<^verbatim>\<open>LONG_MIN\<close> and \<^verbatim>\<open>LONG_MAX\<close> that is congruent to \<open>x\<close> modulo
  \<open>2 ^ 64\<close>. It is also what the machine makes of a product of two \<^verbatim>\<open>long\<close>s whose exact
  value is \<open>x\<close>.
\<close>

definition to_long :: "int \<Rightarrow> int" where
  "to_long x =
     (if to_size_t x \<le> LONG_MAX then to_size_t x else to_size_t x - 18446744073709551616)"

subsection \<open>Access to objects\<close>

text \<open>\<open>deref s p\<close> is the object \<^verbatim>\<open>*p\<close>, if there is one.\<close>

definition deref :: "state \<Rightarrow> addr \<Rightarrow> arena_s option" where
  "deref s p = (if p = 0 then None else fmlookup (heap s) p)"

text \<open>\<open>store p ob s\<close> is the assignment \<^verbatim>\<open>*p = ob\<close>.\<close>

definition store :: "addr \<Rightarrow> arena_s \<Rightarrow> state \<Rightarrow> state" where
  "store p ob s = s\<lparr>heap := fmupd p ob (heap s)\<rparr>"

subsection \<open>The helpers of raii.h\<close>

text \<open>
  Modelled from the spec: \<^verbatim>\<open>is_empty\<close> is declared in \<^verbatim>\<open>raii.h\<close>, which is missing. A
  handle is empty when it is \<^verbatim>\<open>NULL\<close>.
\<close>

definition is_empty :: "addr \<Rightarrow> bool" where
  "is_empty p = (p = 0)"

text \<open>
  Modelled from the spec: \<^verbatim>\<open>is_zero\<close> is declared in the missing \<^verbatim>\<open>raii.h\<close>. It tests a
  number for 0.
\<close>

definition is_zero :: "int \<Rightarrow> bool" where
  "is_zero n = (n = 0)"

text \<open>
  Modelled from the spec: \<^verbatim>\<open>is_type\<close> is declared in the missing \<^verbatim>\<open>raii.h\<close>. It compares
  the type tag of the object with the tag given. The source calls it on pointers that it
  has tested for \<^verbatim>\<open>NULL\<close> before; the caller in the model reads the object.
\<close>

definition is_type :: "arena_s \<Rightarrow> int \<Rightarrow> bool" where
  "is_type ob t = (type ob = t)"

text \<open>
  Modelled from the spec: \<^verbatim>\<open>try_malloc\<close> is missing from the sources. It asks the system
  allocator for a block and raises the built-in out-of-memory exception when the
  allocator fails.
\<close>

definition try_malloc :: "int \<Rightarrow> state \<Rightarrow> (error + addr) \<times> state" where
  "try_malloc n s =
     (case sys s of
        [] \<Rightarrow> (Inl OutOfMemory, s)
      | q # rest \<Rightarrow>
          if q = 0 then (Inl OutOfMemory, s\<lparr>sys := rest\<rparr>)
          else (Inr q, s\<lparr>sys := rest, blocks := fmupd q n (blocks s)\<rparr>))"

text \<open>
  A \<^verbatim>\<open>realloc\<close> that moves the block \<open>p\<close> to \<open>q\<close> carries the contents along and releases
  \<open>p\<close>: the header object, and the first \<open>n\<close> bytes.
\<close>

definition moved_heap :: "addr \<Rightarrow> addr \<Rightarrow> (addr, arena_s) fmap \<Rightarrow> (addr, arena_s) fmap" where
  "moved_heap p q h =
     (if p = 0 \<or> p = q then h
      else case fmlookup h p of
             None \<Rightarrow> fmdrop p h
           | Some ob \<Rightarrow> fmupd q ob (fmdrop p h))"

definition moved_mem :: "addr \<Rightarrow> addr \<Rightarrow> int \<Rightarrow> (addr \<Rightarrow> 8 word) \<Rightarrow> addr \<Rightarrow> 8 word" where
  "moved_mem p q n m =
     (if p = 0 \<or> p = q then m
      else (\<lambda>x. if q \<le> x \<and> x < q + n then m (p + (x - q)) else m x))"

text \<open>
  Modelled from the spec: \<^verbatim>\<open>try_realloc\<close> is missing from the sources. It asks the
  system allocator to resize a block and raises the built-in out-of-memory exception when
  the allocator fails; the old block is then still there. \<^verbatim>\<open>realloc(NULL, n)\<close> is
  \<^verbatim>\<open>malloc(n)\<close>.
\<close>

definition try_realloc :: "addr \<Rightarrow> int \<Rightarrow> state \<Rightarrow> (error + addr) \<times> state" where
  "try_realloc p n s =
     (case sys s of
        [] \<Rightarrow> (Inl OutOfMemory, s)
      | q # rest \<Rightarrow>
          if q = 0 then (Inl OutOfMemory, s\<lparr>sys := rest\<rparr>)
          else (Inr q,
                s\<lparr>sys := rest,
                  blocks := fmupd q n (fmdrop p (blocks s)),
                  heap := moved_heap p q (heap s),
                  mem := moved_mem p q
                           (case fmlookup (blocks s) p of None \<Rightarrow> 0 | Some k \<Rightarrow> min k n)
                           (mem s)\<rparr>))"

text \<open>
  Modelled from the spec: \<^verbatim>\<open>RAII_FREE\<close> is a macro of the missing \<^verbatim>\<open>raii.h\<close>; it returns
  a block to the system allocator. Releasing \<^verbatim>\<open>NULL\<close> does nothing.
\<close>

definition RAII_FREE :: "addr \<Rightarrow> state \<Rightarrow> error + state" where
  "RAII_FREE p s =
     (if p = 0 then Inr s
      else if p \<in> fmdom' (blocks s)
      then Inr (s\<lparr>blocks := fmdrop p (blocks s), heap := fmdrop p (heap s)\<rparr>)
      else Inl Fault)"

text \<open>
  Modelled from the spec: \<^verbatim>\<open>RAII_ASSERT\<close> is a macro of the missing \<^verbatim>\<open>raii.h\<close>. Where
  assertions are compiled in, a false condition raises the built-in assertion-failure
  exception; where they are not, the macro is empty.
\<close>

definition RAII_ASSERT :: "config \<Rightarrow> bool \<Rightarrow> bool" where
  "RAII_ASSERT cfg c = (if asserts cfg then c else True)"

subsection \<open>Statements\<close>

text \<open>
  A statement takes the state and returns a value or a raise, with the state it leaves.
  \<open>modify p f\<close> is an assignment to fields of \<^verbatim>\<open>*p\<close>; \<open>seq\<close> runs statements in order
  and stops at the first raise.
\<close>

type_synonym 'a result = "(error + 'a) \<times> state"

definition modify :: "addr \<Rightarrow> (arena_s \<Rightarrow> arena_s) \<Rightarrow> state \<Rightarrow> unit result" where
  "modify p f s =
     (case deref s p of
        None \<Rightarrow> (Inl Fault, s)
      | Some ob \<Rightarrow> (Inr (), store p (f ob) s))"

fun seq :: "(state \<Rightarrow> unit result) list \<Rightarrow> state \<Rightarrow> unit result" where
  "seq [] s = (Inr (), s)"
| "seq (f # fs) s =
     (case f s of
        (Inl e, s') \<Rightarrow> (Inl e, s')
      | (Inr _, s') \<Rightarrow> seq fs s')"

definition memset :: "addr \<Rightarrow> 8 word \<Rightarrow> int \<Rightarrow> state \<Rightarrow> state" where
  "memset p v n s = s\<lparr>mem := (\<lambda>x. if p \<le> x \<and> x < p + n then v else mem s x)\<rparr>"

subsection \<open>arena_init, arena_free\<close>

text \<open>
  \<^verbatim>\<open>arena_t arena = try_malloc(sizeof(*arena));\<close> and then every field is assigned.
\<close>

definition arena_init :: "config \<Rightarrow> state \<Rightarrow> addr result" where
  "arena_init cfg s =
     (case try_malloc (sizeof_arena cfg) s of
        (Inl e, s1) \<Rightarrow> (Inl e, s1)
      | (Inr arena, s1) \<Rightarrow>
          (Inr arena,
           store arena
             \<lparr>type = RAII_ARENA cfg + RAII_STRUCT cfg, prev = 0, avail = 0, limit = 0,
              base = 0, bytes = 0, total = 0\<rparr> s1))"

text \<open>
  \<^verbatim>\<open>memset(arena, -1, sizeof(arena_t))\<close> overwrites the leading bytes of the handle, a
  pointer's worth, where the type tag is; then the base block and the handle are released.
\<close>

definition arena_free :: "config \<Rightarrow> addr \<Rightarrow> state \<Rightarrow> unit result" where
  "arena_free cfg arena s =
     (if is_empty arena then (Inr (), s)
      else case deref s arena of
             None \<Rightarrow> (Inl Fault, s)
           | Some ar \<Rightarrow>
               if is_type ar (RAII_ARENA cfg + RAII_STRUCT cfg) then
                 (let s1 = store arena (ar\<lparr>type := - 1\<rparr>) s in
                  case RAII_FREE (base ar) s1 of
                    Inl e \<Rightarrow> (Inl e, s1)
                  | Inr s2 \<Rightarrow>
                      (case RAII_FREE arena s2 of
                         Inl e \<Rightarrow> (Inl e, s2)
                       | Inr s3 \<Rightarrow> (Inr (), s3)))
               else (Inr (), s))"

subsection \<open>arena_capacity, arena_total\<close>

text \<open>
  \<^verbatim>\<open>return !is_empty(arena) && is_type(arena, RAII_ARENA + RAII_STRUCT)\<close>
  \<^verbatim>\<open>  ? arena->limit - arena->avail : 0;\<close>
  The function returns a \<^verbatim>\<open>size_t\<close>: the difference of the two pointers is converted.
\<close>

definition arena_capacity :: "config \<Rightarrow> addr \<Rightarrow> state \<Rightarrow> error + int" where
  "arena_capacity cfg arena s =
     (if is_empty arena then Inr 0
      else case deref s arena of
             None \<Rightarrow> Inl Fault
           | Some ar \<Rightarrow>
               if is_type ar (RAII_ARENA cfg + RAII_STRUCT cfg)
               then Inr (to_size_t (limit ar - avail ar)) else Inr 0)"

text \<open>
  \<^verbatim>\<open>return !is_empty(arena) && is_type(arena, RAII_ARENA + RAII_STRUCT)\<close>
  \<^verbatim>\<open>  ? MAX(arena->total, sizeof(union header)) - sizeof(union header) : 0;\<close>
\<close>

definition arena_total :: "config \<Rightarrow> addr \<Rightarrow> state \<Rightarrow> error + int" where
  "arena_total cfg arena s =
     (if is_empty arena then Inr 0
      else case deref s arena of
             None \<Rightarrow> Inl Fault
           | Some ar \<Rightarrow>
               if is_type ar (RAII_ARENA cfg + RAII_STRUCT cfg)
               then Inr (max (total ar) (sizeof_header cfg) - sizeof_header cfg) else Inr 0)"

subsection \<open>malloc_arena, calloc_arena\<close>

text \<open>
  \<^verbatim>\<open>if (arena_capacity(arena) == arena_total(arena)) num_free = 0;\<close>
\<close>

definition reset_counter :: "config \<Rightarrow> addr \<Rightarrow> state \<Rightarrow> unit result" where
  "reset_counter cfg arena s =
     (case arena_capacity cfg arena s of
        Inl e \<Rightarrow> (Inl e, s)
      | Inr c \<Rightarrow>
          (case arena_total cfg arena s of
             Inl e \<Rightarrow> (Inl e, s)
           | Inr t \<Rightarrow> (Inr (), if c = t then s\<lparr>num_free := 0\<rparr> else s)))"

text \<open>
  \<^verbatim>\<open>nbytes = ((nbytes + sizeof(union header) - 1) / (sizeof(union header)))\<close>
  \<^verbatim>\<open>           * (sizeof(union header));\<close>
  \<^verbatim>\<open>sizeof\<close> is a \<^verbatim>\<open>size_t\<close>, so \<^verbatim>\<open>nbytes\<close> is converted and the sum, the quotient and
  the product are computed in \<^verbatim>\<open>size_t\<close>; the assignment converts the product to
  \<^verbatim>\<open>long\<close>. \<open>h\<close> is \<^verbatim>\<open>sizeof(union header)\<close>.
\<close>

definition round_up :: "int \<Rightarrow> int \<Rightarrow> int" where
  "round_up h nbytes = to_long (to_size_t (to_size_t (nbytes + h - 1) div h * h))"

text \<open>
  The tail of the loop body, for the chunk \<open>ptr\<close> and its \<open>lim\<close>:
  \<^verbatim>\<open>*ptr = *arena; arena->avail = (char *)((union header *)ptr + 1);\<close>
  \<^verbatim>\<open>arena->limit = limit; arena->prev = ptr; ptr->type = RAII_ARENA;\<close>
\<close>

definition link_chunk :: "config \<Rightarrow> addr \<Rightarrow> addr \<Rightarrow> addr \<Rightarrow> state \<Rightarrow> unit result" where
  "link_chunk cfg arena ptr lim =
     seq [(\<lambda>s. case deref s arena of
                 None \<Rightarrow> (Inl Fault, s)
               | Some ar \<Rightarrow> (Inr (), store ptr ar s)),
          modify arena (\<lambda>ar. ar\<lparr>avail := ptr + sizeof_header cfg, limit := lim, prev := ptr\<rparr>),
          modify ptr (\<lambda>ob. ob\<lparr>type := RAII_ARENA cfg\<rparr>)]"

text \<open>
  \<^verbatim>\<open>free_list = free_list->prev; num_free--; limit = ptr->limit;\<close> for \<^verbatim>\<open>ptr = free_list\<close>.
\<close>

definition take_free :: "config \<Rightarrow> addr \<Rightarrow> state \<Rightarrow> unit result" where
  "take_free cfg arena s =
     (case deref s (free_list s) of
        None \<Rightarrow> (Inl Fault, s)
      | Some fl \<Rightarrow>
          link_chunk cfg arena (free_list s) (limit fl)
            (s\<lparr>free_list := prev fl, num_free := num_free s - 1\<rparr>))"

text \<open>
  \<^verbatim>\<open>long m = sizeof(union header) + nbytes + THRESHOLD * 1024; arena->total += m;\<close>
  \<^verbatim>\<open>ptr = try_realloc(arena->base, arena->total); arena->base = ptr;\<close>
  \<^verbatim>\<open>limit = (char *)arena->base + arena->total;\<close>
  The sum for \<^verbatim>\<open>m\<close> is computed in \<^verbatim>\<open>size_t\<close> and converted to \<^verbatim>\<open>long\<close>;
  \<^verbatim>\<open>total\<close> is a \<^verbatim>\<open>size_t\<close>.
\<close>

definition grow :: "config \<Rightarrow> addr \<Rightarrow> int \<Rightarrow> state \<Rightarrow> unit result" where
  "grow cfg arena nbytes s =
     (case deref s arena of
        None \<Rightarrow> (Inl Fault, s)
      | Some ar \<Rightarrow>
          (let m = to_long (to_size_t (sizeof_header cfg + nbytes + THRESHOLD * 1024));
               ar1 = ar\<lparr>total := to_size_t (total ar + m)\<rparr>
           in case try_realloc (base ar1) (total ar1) (store arena ar1 s) of
                (Inl e, s1) \<Rightarrow> (Inl e, s1)
              | (Inr ptr, s1) \<Rightarrow>
                  (case deref s1 arena of
                     None \<Rightarrow> (Inl Fault, s1)
                   | Some ar2 \<Rightarrow>
                       link_chunk cfg arena ptr (ptr + total ar2)
                         (store arena (ar2\<lparr>base := ptr\<rparr>) s1))))"

text \<open>The body of the loop: a chunk from the free list if there is one, a grown block if not.\<close>

definition acquire :: "config \<Rightarrow> addr \<Rightarrow> int \<Rightarrow> state \<Rightarrow> unit result" where
  "acquire cfg arena nbytes s =
     (if free_list s \<noteq> 0 then take_free cfg arena s else grow cfg arena nbytes s)"

text \<open>
  \<^verbatim>\<open>while (nbytes > arena->limit - arena->avail) { ... }\<close>. The loop moves chunks from
  the free list to the arena by turning \<^verbatim>\<open>prev\<close> pointers around, on a heap that may
  hold cycles; a run that does not end has no result.
\<close>

partial_function (option) malloc_loop ::
  "config \<Rightarrow> addr \<Rightarrow> int \<Rightarrow> state \<Rightarrow> unit result option" where
  "malloc_loop cfg arena nbytes s =
     (case deref s arena of
        None \<Rightarrow> Some (Inl Fault, s)
      | Some ar \<Rightarrow>
          if nbytes > limit ar - avail ar then
            (case acquire cfg arena nbytes s of
               (Inl e, s') \<Rightarrow> Some (Inl e, s')
             | (Inr _, s') \<Rightarrow> malloc_loop cfg arena nbytes s')
          else Some (Inr (), s))"

text \<open>
  \<^verbatim>\<open>if (arena->prev) arena->prev->bytes = arena->bytes;\<close>
  \<^verbatim>\<open>arena->bytes = nbytes; arena->avail += nbytes; return arena->avail - nbytes;\<close>
  \<^verbatim>\<open>bytes\<close> is a \<^verbatim>\<open>size_t\<close>.
\<close>

definition note_bytes :: "addr \<Rightarrow> state \<Rightarrow> unit result" where
  "note_bytes arena s =
     (case deref s arena of
        None \<Rightarrow> (Inl Fault, s)
      | Some ar \<Rightarrow>
          if prev ar \<noteq> 0 then modify (prev ar) (\<lambda>p. p\<lparr>bytes := bytes ar\<rparr>) s
          else (Inr (), s))"

definition bump :: "addr \<Rightarrow> int \<Rightarrow> state \<Rightarrow> addr result" where
  "bump arena nbytes s =
     (case seq [note_bytes arena,
                modify arena
                  (\<lambda>ar. ar\<lparr>bytes := to_size_t nbytes, avail := avail ar + nbytes\<rparr>)] s of
        (Inl e, s1) \<Rightarrow> (Inl e, s1)
      | (Inr _, s1) \<Rightarrow>
          (case deref s1 arena of
             None \<Rightarrow> (Inl Fault, s1)
           | Some ar \<Rightarrow> (Inr (avail ar - nbytes), s1)))"

definition malloc_arena :: "config \<Rightarrow> addr \<Rightarrow> int \<Rightarrow> state \<Rightarrow> addr result option" where
  "malloc_arena cfg arena nbytes s =
     (if \<not> RAII_ASSERT cfg (arena \<noteq> 0) then Some (Inl AssertionFailure, s)
      else if \<not> RAII_ASSERT cfg (nbytes > 0) then Some (Inl AssertionFailure, s)
      else case reset_counter cfg arena s of
             (Inl e, s1) \<Rightarrow> Some (Inl e, s1)
           | (Inr _, s1) \<Rightarrow>
               (case malloc_loop cfg arena (round_up (sizeof_header cfg) nbytes) s1 of
                  None \<Rightarrow> None
                | Some (Inl e, s2) \<Rightarrow> Some (Inl e, s2)
                | Some (Inr _, s2) \<Rightarrow>
                    Some (bump arena (round_up (sizeof_header cfg) nbytes) s2)))"

text \<open>
  \<^verbatim>\<open>RAII_ASSERT(count > 0); void *ptr = malloc_arena(arena, count * nbytes);\<close>
  \<^verbatim>\<open>memset(ptr, 0, count * nbytes); return ptr;\<close>
  The product is one of two \<^verbatim>\<open>long\<close>s: it wraps. The length that \<^verbatim>\<open>memset\<close> takes is
  a \<^verbatim>\<open>size_t\<close>.
\<close>

definition calloc_arena ::
  "config \<Rightarrow> addr \<Rightarrow> int \<Rightarrow> int \<Rightarrow> state \<Rightarrow> addr result option" where
  "calloc_arena cfg arena count nbytes s =
     (if \<not> RAII_ASSERT cfg (count > 0) then Some (Inl AssertionFailure, s)
      else case malloc_arena cfg arena (to_long (count * nbytes)) s of
             None \<Rightarrow> None
           | Some (Inl e, s1) \<Rightarrow> Some (Inl e, s1)
           | Some (Inr ptr, s1) \<Rightarrow>
               Some (Inr ptr, memset ptr 0 (to_size_t (to_long (count * nbytes))) s1))"

subsection \<open>arena_clear\<close>

text \<open>
  The loop condition \<^verbatim>\<open>arena->prev && is_type(arena->prev, RAII_ARENA)\<close>.
\<close>

definition clear_guard :: "config \<Rightarrow> addr \<Rightarrow> state \<Rightarrow> error + bool" where
  "clear_guard cfg arena s =
     (case deref s arena of
        None \<Rightarrow> Inl Fault
      | Some ar \<Rightarrow>
          if prev ar = 0 then Inr False
          else (case deref s (prev ar) of
                  None \<Rightarrow> Inl Fault
                | Some pr \<Rightarrow> Inr (is_type pr (RAII_ARENA cfg))))"

text \<open>
  The branch \<^verbatim>\<open>num_free < THRESHOLD\<close>:
  \<^verbatim>\<open>arena->prev->prev = free_list; free_list = arena->prev; num_free++;\<close>
  \<^verbatim>\<open>if (is_zero(free_list->bytes)) arena->avail -= arena->bytes;\<close>
  \<^verbatim>\<open>else arena->avail -= free_list->bytes;\<close>
  Each statement reads \<^verbatim>\<open>arena->prev\<close> and \<^verbatim>\<open>free_list\<close> anew, as the source does.
\<close>

definition clear_push :: "addr \<Rightarrow> state \<Rightarrow> unit result" where
  "clear_push arena =
     seq [(\<lambda>s. case deref s arena of
                 None \<Rightarrow> (Inl Fault, s)
               | Some ar \<Rightarrow> modify (prev ar) (\<lambda>p. p\<lparr>prev := free_list s\<rparr>) s),
          (\<lambda>s. case deref s arena of
                 None \<Rightarrow> (Inl Fault, s)
               | Some ar \<Rightarrow> (Inr (), s\<lparr>free_list := prev ar\<rparr>)),
          (\<lambda>s. (Inr (), s\<lparr>num_free := num_free s + 1\<rparr>)),
          (\<lambda>s. case deref s (free_list s) of
                 None \<Rightarrow> (Inl Fault, s)
               | Some fl \<Rightarrow>
                   if is_zero (bytes fl)
                   then modify arena (\<lambda>ar. ar\<lparr>avail := avail ar - bytes ar\<rparr>) s
                   else modify arena (\<lambda>ar. ar\<lparr>avail := avail ar - bytes fl\<rparr>) s)]"

text \<open>
  The other branch:
  \<^verbatim>\<open>arena->avail = (char *)((union header *)arena->base + 1);\<close>
  \<^verbatim>\<open>arena->limit = (char *)arena->base + arena->total; arena->bytes = 0; arena->prev = NULL;\<close>
\<close>

definition clear_reset :: "config \<Rightarrow> addr \<Rightarrow> state \<Rightarrow> unit result" where
  "clear_reset cfg arena =
     modify arena
       (\<lambda>ar. ar\<lparr>avail := base ar + sizeof_header cfg, limit := base ar + total ar,
                bytes := 0, prev := 0\<rparr>)"

text \<open>
  The loop body, from \<^verbatim>\<open>arena_t tmp = arena->prev;\<close> to \<^verbatim>\<open>arena = tmp;\<close>: it returns
  \<open>tmp\<close>, the arena of the next round.
\<close>

definition clear_body :: "config \<Rightarrow> addr \<Rightarrow> state \<Rightarrow> addr result" where
  "clear_body cfg arena s =
     (case deref s arena of
        None \<Rightarrow> (Inl Fault, s)
      | Some ar \<Rightarrow>
          (case (if num_free s < THRESHOLD then clear_push arena s
                 else clear_reset cfg arena s) of
             (Inl e, s') \<Rightarrow> (Inl e, s')
           | (Inr _, s') \<Rightarrow> (Inr (prev ar), s')))"

text \<open>
  \<^verbatim>\<open>while (arena->prev && is_type(arena->prev, RAII_ARENA)) { ... arena = tmp; }\<close>
\<close>

function arena_clear_loop :: "config \<Rightarrow> addr \<Rightarrow> state \<Rightarrow> unit result" where
  "arena_clear_loop cfg arena s =
     (case clear_guard cfg arena s of
        Inl e \<Rightarrow> (Inl e, s)
      | Inr go \<Rightarrow>
          if go then
            (case clear_body cfg arena s of
               (Inl e, s') \<Rightarrow> (Inl e, s')
             | (Inr tmp, s') \<Rightarrow> arena_clear_loop cfg tmp s')
          else (Inr (), s))"
  by pat_completeness auto

definition arena_clear :: "config \<Rightarrow> addr \<Rightarrow> state \<Rightarrow> unit result" where
  "arena_clear cfg arena s =
     (if is_empty arena then (Inr (), s) else arena_clear_loop cfg arena s)"

subsection \<open>Clients\<close>

text \<open>
  A client is a sequence of calls. \<open>run\<close> makes them one after the other, as long as each
  returns normally, and gives the state after the last one.
\<close>

datatype call =
  Init
| Malloc addr int
| Calloc addr int int
| Clear addr
| Free addr

fun run :: "config \<Rightarrow> call list \<Rightarrow> state \<Rightarrow> state option" where
  "run cfg [] s = Some s"
| "run cfg (Init # cs) s =
     (case arena_init cfg s of (Inr _, s') \<Rightarrow> run cfg cs s' | (Inl _, _) \<Rightarrow> None)"
| "run cfg (Malloc a n # cs) s =
     (case malloc_arena cfg a n s of Some (Inr _, s') \<Rightarrow> run cfg cs s' | _ \<Rightarrow> None)"
| "run cfg (Calloc a c n # cs) s =
     (case calloc_arena cfg a c n s of Some (Inr _, s') \<Rightarrow> run cfg cs s' | _ \<Rightarrow> None)"
| "run cfg (Clear a # cs) s =
     (case arena_clear cfg a s of (Inr _, s') \<Rightarrow> run cfg cs s' | (Inl _, _) \<Rightarrow> None)"
| "run cfg (Free a # cs) s =
     (case arena_free cfg a s of (Inr _, s') \<Rightarrow> run cfg cs s' | (Inl _, _) \<Rightarrow> None)"

text \<open>
  A configuration to run clients in: a \<^verbatim>\<open>union header\<close> of 64 bytes, which holds a
  \<^verbatim>\<open>struct arena_s\<close> of 56 bytes, so that the header object of a chunk ends where the
  first allocation in the chunk begins; two tags; assertions compiled in.
\<close>

definition demo :: config where
  "demo = \<lparr>sizeof_header = 64, sizeof_arena = 56, RAII_ARENA = 30, RAII_STRUCT = 20,
           asserts = True\<rparr>"

subsection \<open>Properties of states\<close>

text \<open>The chunk invariant of an arena object: \<open>base \<le> avail \<le> limit\<close>.\<close>

definition chunk_inv :: "arena_s \<Rightarrow> bool" where
  "chunk_inv ar = (base ar \<le> avail ar \<and> avail ar \<le> limit ar)"

text \<open>
  \<open>chain h p ps\<close>: following \<^verbatim>\<open>prev\<close> from \<open>p\<close> visits the objects \<open>ps\<close>, in this order,
  and then reaches \<^verbatim>\<open>NULL\<close>.
\<close>

fun chain :: "(addr, arena_s) fmap \<Rightarrow> addr \<Rightarrow> addr list \<Rightarrow> bool" where
  "chain h p [] = (p = 0)"
| "chain h p (q # qs) =
     (p = q \<and> p \<noteq> 0 \<and>
      (case fmlookup h p of None \<Rightarrow> False | Some ob \<Rightarrow> chain h (prev ob) qs))"

text \<open>The objects whose \<^verbatim>\<open>prev\<close> is not \<^verbatim>\<open>NULL\<close>.\<close>

definition linked :: "(addr, arena_s) fmap \<Rightarrow> addr set" where
  "linked h = {p \<in> fmdom' h. \<exists>ob. fmlookup h p = Some ob \<and> prev ob \<noteq> 0}"

text \<open>
  What a run of \<open>arena_clear\<close> keeps: the allocator's table, its answers and the memory;
  the bound on the counter; and, once the counter has reached \<open>THRESHOLD\<close>, the counter and
  the free list themselves.
\<close>

definition clear_rel :: "state \<Rightarrow> state \<Rightarrow> bool" where
  "clear_rel s s' =
     (blocks s' = blocks s \<and> sys s' = sys s \<and> mem s' = mem s \<and>
      (num_free s \<le> THRESHOLD \<longrightarrow> num_free s' \<le> THRESHOLD) \<and>
      (THRESHOLD \<le> num_free s \<longrightarrow> num_free s' = num_free s \<and> free_list s' = free_list s))"

section \<open>Termination of arena_clear\<close>

lemma finite_linked: "finite (linked h)"
  by (simp add: linked_def)

lemma clear_push_num_free:
  "clear_push arena s = (Inr u, s') \<Longrightarrow> num_free s' = num_free s + 1"
  by (auto simp: clear_push_def modify_def store_def deref_def
      split: option.splits if_splits prod.splits sum.splits)

lemma clear_reset_linked:
  assumes "clear_reset cfg arena s = (Inr u, s')" "deref s arena = Some ar" "prev ar \<noteq> 0"
  shows "num_free s' = num_free s \<and> linked (heap s') \<subset> linked (heap s)"
proof -
  from assms have look: "fmlookup (heap s) arena = Some ar"
    by (auto simp: deref_def split: if_splits)
  from assms have s': "s' = store arena
      (ar\<lparr>avail := base ar + sizeof_header cfg, limit := base ar + total ar,
          bytes := 0, prev := 0\<rparr>) s"
    by (simp add: clear_reset_def modify_def)
  have "arena \<in> linked (heap s)"
    using look assms(3) by (auto simp: linked_def fmlookup_dom'_iff)
  moreover have "arena \<notin> linked (heap s')"
    by (simp add: s' store_def linked_def)
  moreover have "linked (heap s') \<subseteq> linked (heap s)"
    using look by (auto simp: s' store_def linked_def fmlookup_dom'_iff split: if_splits)
  ultimately show ?thesis by (auto simp: s' store_def)
qed

text \<open>
  A round that pushes raises the counter towards \<open>THRESHOLD\<close>; a round that does not
  leaves one object fewer with a \<^verbatim>\<open>prev\<close>. So the loop ends on every heap, cyclic or not.
\<close>

termination arena_clear_loop
proof (relation "measures [\<lambda>(cfg, arena, s). nat (THRESHOLD - num_free s),
                           \<lambda>(cfg, arena, s). card (linked (heap s))]")
  show "wf (measures [\<lambda>(cfg, arena, s). nat (THRESHOLD - num_free s),
                      \<lambda>(cfg, arena, s). card (linked (heap s))])"
    by simp
next
  fix cfg arena s go x tmp s'
  show "clear_guard cfg arena s = Inr go \<Longrightarrow> go \<Longrightarrow> (x, s') = clear_body cfg arena s \<Longrightarrow>
    x = Inr tmp \<Longrightarrow>
    ((cfg, tmp, s'), (cfg, arena, s))
      \<in> measures [\<lambda>(cfg, arena, s). nat (THRESHOLD - num_free s),
                  \<lambda>(cfg, arena, s). card (linked (heap s))]"
  proof -
    assume g: "clear_guard cfg arena s = Inr go" and go: go
      and b: "(x, s') = clear_body cfg arena s" and x: "x = Inr tmp"
    from g go obtain ar where ar: "deref s arena = Some ar" "prev ar \<noteq> 0"
      by (auto simp: clear_guard_def split: option.splits if_splits)
    show ?thesis
    proof (cases "num_free s < THRESHOLD")
      case True
      with b x ar obtain u where "clear_push arena s = (Inr u, s')"
        by (auto simp: clear_body_def split: prod.splits sum.splits)
      then have "num_free s' = num_free s + 1"
        by (rule clear_push_num_free)
      with True show ?thesis by simp
    next
      case False
      with b x ar obtain u where "clear_reset cfg arena s = (Inr u, s')"
        by (auto simp: clear_body_def split: prod.splits sum.splits)
      from clear_reset_linked [OF this ar]
      have "num_free s' = num_free s" "card (linked (heap s')) < card (linked (heap s))"
        by (simp_all add: psubset_card_mono finite_linked)
      then show ?thesis by simp
    qed
  qed
qed

declare arena_clear_loop.simps [simp del]

section \<open>Running the model\<close>

text \<open>
  The equations that evaluate a client on a given state: the definitions above and the
  unfolding of the two loops.
\<close>

lemmas model_defs =
  to_size_t_def to_long_def LONG_MAX_def LONG_MIN_def
  start_def deref_def store_def is_empty_def is_zero_def is_type_def try_malloc_def
  moved_heap_def moved_mem_def try_realloc_def RAII_FREE_def RAII_ASSERT_def modify_def
  memset_def arena_init_def arena_free_def arena_capacity_def arena_total_def
  reset_counter_def round_up_def link_chunk_def take_free_def grow_def acquire_def
  note_bytes_def bump_def malloc_arena_def calloc_arena_def clear_guard_def clear_push_def
  clear_reset_def clear_body_def arena_clear_def demo_def THRESHOLD_def Let_def
  malloc_loop.simps arena_clear_loop.simps

section \<open>Basic facts\<close>

lemma deref_num_free [simp]: "deref (s\<lparr>num_free := k\<rparr>) p = deref s p"
  by (simp add: deref_def)

lemma sys_store [simp]: "sys (store p ob s) = sys s"
  by (simp add: store_def)

text \<open>A value in the range of the type is not changed by the conversions.\<close>

lemma to_size_t_id: "0 \<le> x \<Longrightarrow> x \<le> LONG_MAX \<Longrightarrow> to_size_t x = x"
  by (simp add: to_size_t_def LONG_MAX_def)


text \<open>On a live handle the two queries return, and \<open>reset_counter\<close> touches the counter only.\<close>

lemma reset_counter_live:
  assumes "deref s arena = Some ar"
  shows "\<exists>k. reset_counter cfg arena s = (Inr (), s\<lparr>num_free := k\<rparr>) \<and>
             (k = 0 \<or> k = num_free s)"
proof -
  from assms have a: "arena \<noteq> 0"
    by (auto simp: deref_def split: if_splits)
  obtain c t where ct: "arena_capacity cfg arena s = Inr c" "arena_total cfg arena s = Inr t"
    using assms a
    by (cases "is_type ar (RAII_ARENA cfg + RAII_STRUCT cfg)")
      (simp_all add: arena_capacity_def arena_total_def is_empty_def)
  show ?thesis
  proof (cases "c = t")
    case True
    then have "reset_counter cfg arena s = (Inr (), s\<lparr>num_free := 0\<rparr>)"
      using ct by (simp add: reset_counter_def)
    then show ?thesis by blast
  next
    case False
    then have "reset_counter cfg arena s = (Inr (), s\<lparr>num_free := num_free s\<rparr>)"
      using ct by (simp add: reset_counter_def)
    then show ?thesis by blast
  qed
qed

text \<open>A system allocator that fails makes the three requests raise.\<close>

lemma try_malloc_fail:
  "sys s = [] \<or> hd (sys s) = 0 \<Longrightarrow> \<exists>s'. try_malloc n s = (Inl OutOfMemory, s')"
  by (cases "sys s") (auto simp: try_malloc_def)

lemma try_realloc_fail:
  "sys s = [] \<or> hd (sys s) = 0 \<Longrightarrow> \<exists>s'. try_realloc p n s = (Inl OutOfMemory, s')"
  by (cases "sys s") (auto simp: try_realloc_def)

lemma grow_fail:
  assumes "sys s = [] \<or> hd (sys s) = 0" "deref s arena = Some ar"
  shows "\<exists>s'. grow cfg arena n s = (Inl OutOfMemory, s')"
proof -
  let ?m = "to_long (to_size_t (sizeof_header cfg + n + THRESHOLD * 1024))"
  let ?ar1 = "ar\<lparr>total := to_size_t (total ar + ?m)\<rparr>"
  from assms(1) have "sys (store arena ?ar1 s) = [] \<or> hd (sys (store arena ?ar1 s)) = 0"
    by simp
  from try_realloc_fail [OF this]
  obtain s' where "try_realloc (base ar) (to_size_t (total ar + ?m)) (store arena ?ar1 s)
      = (Inl OutOfMemory, s')"
    by blast
  then show ?thesis
    using assms(2) by (simp add: grow_def Let_def)
qed






text \<open>One round of the loop, from the free list and from the system allocator.\<close>

lemma take_free_live:
  assumes ar: "deref s arena = Some ar" and fl: "deref s (free_list s) = Some fl"
  shows "\<exists>s2. take_free cfg arena s = (Inr (), s2) \<and> free_list s2 = prev fl \<and>
     num_free s2 = num_free s - 1 \<and> blocks s2 = blocks s \<and> sys s2 = sys s \<and>
     (\<exists>ar2. deref s2 arena = Some ar2 \<and> prev ar2 = free_list s \<and>
        avail ar2 = free_list s + sizeof_header cfg \<and> limit ar2 = limit fl)"
  using assms
  by (auto simp: take_free_def link_chunk_def modify_def store_def deref_def
      split: option.splits if_splits)


section \<open>The counter and the free list\<close>

text \<open>What the statements leave alone.\<close>

lemma modify_frame:
  "modify p f s = (r, s') \<Longrightarrow>
   num_free s' = num_free s \<and> free_list s' = free_list s \<and> blocks s' = blocks s \<and>
   sys s' = sys s \<and> mem s' = mem s"
  by (auto simp: modify_def store_def split: option.splits)

lemma link_chunk_frame:
  "link_chunk cfg arena ptr lim s = (r, s') \<Longrightarrow>
   num_free s' = num_free s \<and> free_list s' = free_list s \<and> blocks s' = blocks s \<and>
   sys s' = sys s"
  by (auto simp: link_chunk_def modify_def store_def
      split: option.splits prod.splits sum.splits if_splits)

lemma bump_frame:
  "bump arena n s = (r, s') \<Longrightarrow>
   num_free s' = num_free s \<and> free_list s' = free_list s \<and> blocks s' = blocks s \<and>
   sys s' = sys s"
  by (auto simp: bump_def note_bytes_def modify_def store_def
      split: option.splits prod.splits sum.splits if_splits)

lemma acquire_counter:
  "acquire cfg arena n s = (r, s') \<Longrightarrow>
   num_free s' \<le> num_free s \<and> (free_list s = 0 \<longrightarrow> free_list s' = 0)"
  by (auto simp: acquire_def take_free_def grow_def try_realloc_def Let_def store_def
      dest!: link_chunk_frame split: option.splits prod.splits sum.splits if_splits list.splits)

lemma malloc_loop_counter:
  assumes "malloc_loop cfg arena n s = Some y"
  shows "num_free (snd y) \<le> num_free s \<and> (free_list s = 0 \<longrightarrow> free_list (snd y) = 0)"
  using assms
proof (induction rule: malloc_loop.raw_induct [rotated 1, consumes 1])
  case (1 loop cfg arena n s y)
  show ?case
  proof (cases "deref s arena")
    case None
    with 1(2) show ?thesis by auto
  next
    case (Some ar)
    show ?thesis
    proof (cases "limit ar - avail ar < n")
      case False
      with Some 1(2) show ?thesis by auto
    next
      case True
      obtain r s1 where a: "acquire cfg arena n s = (r, s1)"
        by fastforce
      from acquire_counter [OF a]
      have s1: "num_free s1 \<le> num_free s" "free_list s = 0 \<longrightarrow> free_list s1 = 0"
        by simp_all
      show ?thesis
      proof (cases r)
        case (Inl e)
        with Some True a 1(2) have "y = (Inl e, s1)"
          by simp
        with s1 show ?thesis by simp
      next
        case (Inr u)
        with Some True a 1(2) have "loop cfg arena n s1 = Some y"
          by simp
        from 1(1) [OF this] s1 show ?thesis by auto
      qed
    qed
  qed
qed

lemma malloc_arena_counter:
  assumes "malloc_arena cfg arena n s = Some (r, s')"
  shows "num_free s' \<le> max 0 (num_free s) \<and> (free_list s = 0 \<longrightarrow> free_list s' = 0)"
proof -
  have rc: "num_free s1 \<le> max 0 (num_free s) \<and> free_list s1 = free_list s"
    if "reset_counter cfg arena s = (x, s1)" for x s1
    using that by (auto simp: reset_counter_def split: sum.splits if_splits)
  show ?thesis
    using assms
    by (auto simp: malloc_arena_def split: if_splits prod.splits sum.splits option.splits
        dest!: rc malloc_loop_counter bump_frame)
qed

lemma calloc_arena_counter:
  assumes "calloc_arena cfg arena c n s = Some (r, s')"
  shows "num_free s' \<le> max 0 (num_free s) \<and> (free_list s = 0 \<longrightarrow> free_list s' = 0)"
  using assms
  by (auto simp: calloc_arena_def memset_def
      split: if_splits prod.splits sum.splits option.splits dest!: malloc_arena_counter)

text \<open>\<open>arena_clear\<close>, round by round.\<close>

lemma clear_body_rel: "clear_body cfg arena s = (r, s') \<Longrightarrow> clear_rel s s'"
  by (auto simp: clear_rel_def clear_body_def clear_push_def clear_reset_def modify_def store_def
      split: option.splits prod.splits sum.splits if_splits)

lemma clear_rel_refl: "clear_rel s s"
  by (simp add: clear_rel_def)

lemma clear_rel_trans: "clear_rel s s1 \<Longrightarrow> clear_rel s1 s2 \<Longrightarrow> clear_rel s s2"
  by (auto simp: clear_rel_def)

lemma arena_clear_loop_rel: "clear_rel s (snd (arena_clear_loop cfg arena s))"
proof (induction cfg arena s rule: arena_clear_loop.induct)
  case (1 cfg arena s)
  show ?case
  proof (cases "clear_guard cfg arena s")
    case (Inl e)
    then show ?thesis
      by (simp add: arena_clear_loop.simps [of cfg arena s] clear_rel_refl)
  next
    case (Inr go)
    show ?thesis
    proof (cases go)
      case False
      with Inr show ?thesis
        by (simp add: arena_clear_loop.simps [of cfg arena s] clear_rel_refl)
    next
      case True
      obtain x s1 where b: "clear_body cfg arena s = (x, s1)"
        by fastforce
      note r1 = clear_body_rel [OF b]
      show ?thesis
      proof (cases x)
        case (Inl e)
        with Inr True b r1 show ?thesis
          by (simp add: arena_clear_loop.simps [of cfg arena s])
      next
        case (Inr tmp)
        from "1.IH" [OF \<open>clear_guard cfg arena s = Inr go\<close> True b [symmetric] Inr]
        have "clear_rel s1 (snd (arena_clear_loop cfg tmp s1))" .
        with r1 have "clear_rel s (snd (arena_clear_loop cfg tmp s1))"
          by (rule clear_rel_trans)
        with \<open>clear_guard cfg arena s = Inr go\<close> True b Inr show ?thesis
          by (simp add: arena_clear_loop.simps [of cfg arena s])
      qed
    qed
  qed
qed

lemma arena_clear_rel: "clear_rel s (snd (arena_clear cfg arena s))"
  by (simp add: arena_clear_def arena_clear_loop_rel clear_rel_refl)

lemma clear_overflow_once:
  assumes t: "THRESHOLD \<le> num_free s" and ar: "deref s arena = Some ar"
    and na: "prev ar \<noteq> arena" and pr: "deref s (prev ar) = Some pr"
    and ty: "is_type pr (RAII_ARENA cfg)" and lst: "prev pr = 0"
  shows "arena_clear cfg arena s =
    (Inr (), store arena (ar\<lparr>avail := base ar + sizeof_header cfg,
       limit := base ar + total ar, bytes := 0, prev := 0\<rparr>) s)"
proof -
  let ?s1 = "store arena (ar\<lparr>avail := base ar + sizeof_header cfg,
       limit := base ar + total ar, bytes := 0, prev := 0\<rparr>) s"
  from ar have a0: "arena \<noteq> 0" by (auto simp: deref_def split: if_splits)
  from pr have p0: "prev ar \<noteq> 0" by (auto simp: deref_def split: if_splits)
  have g: "clear_guard cfg arena s = Inr True"
    using ar pr ty p0 by (simp add: clear_guard_def)
  have b: "clear_body cfg arena s = (Inr (prev ar), ?s1)"
    using t ar by (simp add: clear_body_def clear_reset_def modify_def)
  have "deref ?s1 (prev ar) = Some pr"
    using pr na by (auto simp: deref_def store_def split: if_splits)
  then have g1: "clear_guard cfg (prev ar) ?s1 = Inr False"
    using lst by (simp add: clear_guard_def)
  have "arena_clear_loop cfg arena s = arena_clear_loop cfg (prev ar) ?s1"
    using g b by (subst arena_clear_loop.simps) simp
  also have "\<dots> = (Inr (), ?s1)"
    using g1 by (subst arena_clear_loop.simps) simp
  finally show ?thesis
    using a0 by (simp add: arena_clear_def is_empty_def)
qed

text \<open>
  The branch of \<open>arena_clear\<close> that does not push leaves the arena with its invariant, and
  with its whole capacity.
\<close>

lemma clear_reset_sound:
  assumes t: "THRESHOLD \<le> num_free s" and ar: "deref s arena = Some ar"
    and na: "prev ar \<noteq> arena" and pr: "deref s (prev ar) = Some pr"
    and ty: "is_type pr (RAII_ARENA cfg)" and lst: "prev pr = 0"
    and h: "0 \<le> sizeof_header cfg" "sizeof_header cfg \<le> total ar" "total ar \<le> LONG_MAX"
  shows "map_option chunk_inv (deref (snd (arena_clear cfg arena s)) arena) = Some True \<and>
    arena_capacity cfg arena (snd (arena_clear cfg arena s))
      = arena_total cfg arena (snd (arena_clear cfg arena s))"
proof -
  from ar have a0: "arena \<noteq> 0"
    by (auto simp: deref_def split: if_splits)
  from h have "to_size_t (total ar - sizeof_header cfg) = total ar - sizeof_header cfg"
    by (simp add: to_size_t_id)
  then show ?thesis
    using a0 h
    by (simp add: clear_overflow_once [OF t ar na pr ty lst] deref_def store_def chunk_inv_def
        arena_capacity_def arena_total_def is_empty_def is_type_def)
qed

text \<open>The other operations, and clients.\<close>

lemma arena_init_frame:
  "num_free (snd (arena_init cfg s)) = num_free s \<and>
   free_list (snd (arena_init cfg s)) = free_list s"
  by (auto simp: arena_init_def try_malloc_def store_def split: list.splits)

lemma arena_free_frame:
  "num_free (snd (arena_free cfg arena s)) = num_free s \<and>
   free_list (snd (arena_free cfg arena s)) = free_list s"
  by (auto simp: arena_free_def RAII_FREE_def store_def Let_def
      split: option.splits sum.splits if_splits)

lemma max_counter: "num_free s \<le> THRESHOLD \<Longrightarrow> k \<le> max 0 (num_free s) \<Longrightarrow> k \<le> THRESHOLD"
  by (simp add: THRESHOLD_def)

lemma run_counter:
  "num_free s \<le> THRESHOLD \<Longrightarrow> run cfg cs s = Some s' \<Longrightarrow> num_free s' \<le> THRESHOLD"
proof (induction cs arbitrary: s)
  case Nil
  then show ?case by simp
next
  case (Cons c cs)
  show ?case
  proof (cases c)
    case Init
    obtain r s1 where i: "arena_init cfg s = (r, s1)" by fastforce
    with arena_init_frame [of cfg s] Cons.prems(1) have "num_free s1 \<le> THRESHOLD" by simp
    with Cons.IH [of s1] Cons.prems(2) Init i show ?thesis
      by (auto split: sum.splits)
  next
    case (Malloc a n)
    with Cons.prems(2) obtain p s1 where m: "malloc_arena cfg a n s = Some (Inr p, s1)"
      and rest: "run cfg cs s1 = Some s'"
      by (auto split: option.splits prod.splits sum.splits)
    from malloc_arena_counter [OF m] Cons.prems(1) have "num_free s1 \<le> THRESHOLD"
      by (auto intro: max_counter)
    with Cons.IH [OF _ rest] show ?thesis by simp
  next
    case (Calloc a k n)
    with Cons.prems(2) obtain p s1 where m: "calloc_arena cfg a k n s = Some (Inr p, s1)"
      and rest: "run cfg cs s1 = Some s'"
      by (auto split: option.splits prod.splits sum.splits)
    from calloc_arena_counter [OF m] Cons.prems(1) have "num_free s1 \<le> THRESHOLD"
      by (auto intro: max_counter)
    with Cons.IH [OF _ rest] show ?thesis by simp
  next
    case (Clear a)
    obtain r s1 where i: "arena_clear cfg a s = (r, s1)" by fastforce
    with arena_clear_rel [of s cfg a] Cons.prems(1) have "num_free s1 \<le> THRESHOLD"
      by (simp add: clear_rel_def)
    with Cons.IH [of s1] Cons.prems(2) Clear i show ?thesis
      by (auto split: sum.splits)
  next
    case (Free a)
    obtain r s1 where i: "arena_free cfg a s = (r, s1)" by fastforce
    with arena_free_frame [of cfg a s] Cons.prems(1) have "num_free s1 \<le> THRESHOLD" by simp
    with Cons.IH [of s1] Cons.prems(2) Free i show ?thesis
      by (auto split: sum.splits)
  qed
qed

text \<open>
  With a system allocator that fails, a run of \<open>malloc_arena\<close> that returns has raised
  out-of-memory, or has not asked the allocator.
\<close>

lemma take_free_frame:
  "take_free cfg arena s = (r, s') \<Longrightarrow> sys s' = sys s \<and> blocks s' = blocks s"
  by (auto simp: take_free_def dest!: link_chunk_frame split: option.splits)

lemma malloc_loop_oom:
  assumes "malloc_loop cfg arena n s = Some y" and "sys s = [] \<or> hd (sys s) = 0"
  shows "fst y = Inl OutOfMemory \<or> (sys (snd y) = sys s \<and> blocks (snd y) = blocks s)"
  using assms
proof (induction rule: malloc_loop.raw_induct [rotated 1, consumes 1])
  case (1 loop cfg arena n s y)
  show ?case
  proof (cases "deref s arena")
    case None
    with 1(2) show ?thesis by auto
  next
    case (Some ar)
    show ?thesis
    proof (cases "limit ar - avail ar < n")
      case False
      with Some 1(2) show ?thesis by auto
    next
      case True
      show ?thesis
      proof (cases "free_list s = 0")
        case True
        from grow_fail [OF 1(3) Some, of cfg n]
        obtain s1 where "grow cfg arena n s = (Inl OutOfMemory, s1)"
          by blast
        with Some \<open>limit ar - avail ar < n\<close> True 1(2) have "y = (Inl OutOfMemory, s1)"
          by (simp add: acquire_def)
        then show ?thesis by simp
      next
        case False
        obtain r s1 where t: "take_free cfg arena s = (r, s1)"
          by fastforce
        from take_free_frame [OF t] have s1: "sys s1 = sys s" "blocks s1 = blocks s"
          by simp_all
        show ?thesis
        proof (cases r)
          case (Inl e)
          with Some True False t 1(2) have "y = (Inl e, s1)"
            by (simp add: acquire_def)
          with s1 show ?thesis by simp
        next
          case (Inr u)
          with Some True False t 1(2) have "loop cfg arena n s1 = Some y"
            by (simp add: acquire_def)
          moreover from 1(3) s1 have "sys s1 = [] \<or> hd (sys s1) = 0"
            by simp
          ultimately have "fst y = Inl OutOfMemory \<or>
              (sys (snd y) = sys s1 \<and> blocks (snd y) = blocks s1)"
            by (rule 1(1))
          with s1 show ?thesis by simp
        qed
      qed
    qed
  qed
qed

lemma malloc_arena_oom:
  assumes m: "malloc_arena cfg arena n s = Some (r, s')" and f: "sys s = [] \<or> hd (sys s) = 0"
  shows "r = Inl OutOfMemory \<or> (sys s' = sys s \<and> blocks s' = blocks s)"
proof (cases "RAII_ASSERT cfg (arena \<noteq> 0) \<and> RAII_ASSERT cfg (0 < n)")
  case False
  with m have "s' = s"
    by (auto simp: malloc_arena_def split: if_splits)
  then show ?thesis by simp
next
  case True
  let ?r = "round_up (sizeof_header cfg) n"
  obtain x s1 where rc: "reset_counter cfg arena s = (x, s1)"
    by fastforce
  then have s1: "sys s1 = sys s" "blocks s1 = blocks s"
    by (auto simp: reset_counter_def split: sum.splits if_splits)
  from True rc have unfold: "malloc_arena cfg arena n s =
      (case x of
         Inl e \<Rightarrow> Some (Inl e, s1)
       | Inr _ \<Rightarrow>
           (case malloc_loop cfg arena ?r s1 of
              None \<Rightarrow> None
            | Some (Inl e, s2) \<Rightarrow> Some (Inl e, s2)
            | Some (Inr _, s2) \<Rightarrow> Some (bump arena ?r s2)))"
    by (simp add: malloc_arena_def split: sum.splits)
  show ?thesis
  proof (cases x)
    case (Inl e)
    with m unfold s1 show ?thesis by simp
  next
    case (Inr u)
    with m unfold obtain ry s2 where loop: "malloc_loop cfg arena ?r s1 = Some (ry, s2)"
      by (auto split: option.splits)
    from f s1 have "sys s1 = [] \<or> hd (sys s1) = 0"
      by simp
    from malloc_loop_oom [OF loop this] s1
    have y: "ry = Inl OutOfMemory \<or> (sys s2 = sys s \<and> blocks s2 = blocks s)"
      by simp
    show ?thesis
    proof (cases ry)
      case (Inl e)
      with m unfold Inr loop y show ?thesis by auto
    next
      case (Inr v)
      with m unfold \<open>x = Inr u\<close> loop have "bump arena ?r s2 = (r, s')"
        by simp
      from bump_frame [OF this] y Inr show ?thesis
        by auto
    qed
  qed
qed

section \<open>What a call of malloc_arena leaves\<close>







section \<open>Empty and foreign handles\<close>

text \<open>
  Claim C10. For a handle that is \<^verbatim>\<open>NULL\<close>, or that points at an object whose type tag is
  not \<^verbatim>\<open>RAII_ARENA + RAII_STRUCT\<close>, \<open>arena_capacity\<close> and \<open>arena_total\<close> return 0 whatever
  the other fields of the object and the rest of the heap hold; \<open>arena_free\<close> and
  \<open>arena_clear\<close> on the \<^verbatim>\<open>NULL\<close> handle return with the whole state as it was.
\<close>

theorem handle_guards:
  assumes "arena = 0 \<or>
           (\<exists>ob. deref s arena = Some ob \<and> type ob \<noteq> RAII_ARENA cfg + RAII_STRUCT cfg)"
  shows "arena_capacity cfg arena s = Inr 0 \<and> arena_total cfg arena s = Inr 0 \<and>
         arena_free cfg 0 s = (Inr (), s) \<and> arena_clear cfg 0 s = (Inr (), s)"
  using assms
  by (auto simp: arena_capacity_def arena_total_def arena_free_def arena_clear_def
      is_empty_def is_type_def)

text \<open>
  The theorem at the \<^verbatim>\<open>NULL\<close> handle in the start state, and at the address 700 of an
  object with the tag \<^verbatim>\<open>RAII_ARENA\<close> of a chunk header.
\<close>

theorem handle_guards_witness:
  "arena_capacity demo 0 (start []) = Inr 0 \<and> arena_total demo 0 (start []) = Inr 0 \<and>
   arena_free demo 0 (start []) = (Inr (), start []) \<and>
   arena_clear demo 0 (start []) = (Inr (), start []) \<and>
   deref (store 700 \<lparr>type = 30, prev = 0, avail = 764, limit = 900, base = 700, bytes = 0,
      total = 200\<rparr> (start [])) 700
     = Some \<lparr>type = 30, prev = 0, avail = 764, limit = 900, base = 700, bytes = 0,
        total = 200\<rparr> \<and>
   arena_capacity demo 700
     (store 700 \<lparr>type = 30, prev = 0, avail = 764, limit = 900, base = 700, bytes = 0,
      total = 200\<rparr> (start [])) = Inr 0 \<and>
   arena_total demo 700
     (store 700 \<lparr>type = 30, prev = 0, avail = 764, limit = 900, base = 700, bytes = 0,
      total = 200\<rparr> (start [])) = Inr 0"
proof -
  let ?ob = "\<lparr>type = 30, prev = 0, avail = 764, limit = 900, base = 700, bytes = 0,
      total = 200\<rparr>"
  have h: "deref (store 700 ?ob (start [])) 700 = Some ?ob \<and>
      type ?ob \<noteq> RAII_ARENA demo + RAII_STRUCT demo"
    by (simp add: deref_def store_def demo_def)
  from h have h2: "(700::int) = 0 \<or> (\<exists>ob. deref (store 700 ?ob (start [])) 700 = Some ob \<and>
      type ob \<noteq> RAII_ARENA demo + RAII_STRUCT demo)"
    by blast
  show ?thesis
    using handle_guards [of 0 "start []" demo] handle_guards [OF h2] h
    by simp
qed

section \<open>Failure of the system allocator\<close>

text \<open>
  Claim C6. When the system allocator fails (it answers \<^verbatim>\<open>NULL\<close>, or it has no answer
  left), \<open>arena_init\<close> raises out-of-memory, and so does \<open>malloc_arena\<close> when the request
  does not fit and the free list is empty, so that it has to grow: the call returns, and
  what it returns is the raise, not a pointer. And wherever in the loop the growth is
  reached: a call of \<open>malloc_arena\<close> that returns anything but the raise has not asked the
  allocator, whose table and answers are as they were.
\<close>

theorem allocator_failure_raises:
  assumes "sys s = [] \<or> hd (sys s) = 0"
  shows "fst (arena_init cfg s) = Inl OutOfMemory \<and>
    (arena \<noteq> 0 \<and> 0 < nbytes \<and> deref s arena = Some ar \<and>
     limit ar - avail ar < round_up (sizeof_header cfg) nbytes \<and> free_list s = 0
     \<longrightarrow> (\<exists>s'. malloc_arena cfg arena nbytes s = Some (Inl OutOfMemory, s'))) \<and>
    (\<forall>r s'. malloc_arena cfg arena nbytes s = Some (r, s') \<longrightarrow>
       r = Inl OutOfMemory \<or> (sys s' = sys s \<and> blocks s' = blocks s))"
proof -
  have 1: "fst (arena_init cfg s) = Inl OutOfMemory"
    using try_malloc_fail [OF assms, of "sizeof_arena cfg"] by (auto simp: arena_init_def)
  have 2: "\<exists>s'. malloc_arena cfg arena nbytes s = Some (Inl OutOfMemory, s')"
    if a: "arena \<noteq> 0" and n: "0 < nbytes" and ar: "deref s arena = Some ar"
      and big: "limit ar - avail ar < round_up (sizeof_header cfg) nbytes"
      and fl: "free_list s = 0"
  proof -
    obtain k where rc: "reset_counter cfg arena s = (Inr (), s\<lparr>num_free := k\<rparr>)"
      using reset_counter_live [OF ar] by blast
    define s1 where "s1 = s\<lparr>num_free := k\<rparr>"
    have s1: "heap s1 = heap s" "sys s1 = sys s" "free_list s1 = free_list s"
      by (simp_all add: s1_def)
    have ar1: "deref s1 arena = Some ar"
      using ar by (simp add: s1_def)
    let ?r = "round_up (sizeof_header cfg) nbytes"
    from assms s1 have "sys s1 = [] \<or> hd (sys s1) = 0"
      by simp
    from grow_fail [OF this ar1]
    obtain s2 where g: "grow cfg arena ?r s1 = (Inl OutOfMemory, s2)"
      by blast
    have "malloc_loop cfg arena ?r s1 = Some (Inl OutOfMemory, s2)"
      using ar1 big fl s1 g
      by (subst malloc_loop.simps) (simp add: acquire_def)
    then show ?thesis
      using a n rc by (auto simp: malloc_arena_def RAII_ASSERT_def s1_def)
  qed
  have 3: "\<forall>r s'. malloc_arena cfg arena nbytes s = Some (r, s') \<longrightarrow>
       r = Inl OutOfMemory \<or> (sys s' = sys s \<and> blocks s' = blocks s)"
    using malloc_arena_oom [OF _ assms] by blast
  from 1 2 3 show ?thesis by blast
qed

text \<open>
  The theorem where the allocator has no answer at all, where its next answer is
  \<^verbatim>\<open>NULL\<close>, on the fresh arena 500 once the allocator's only answer has been spent on
  the handle, and on the arena 500 with a block, where a request that fits returns without
  the allocator.
\<close>

theorem allocator_failure_raises_witness:
  "sys (start []) = [] \<and>
   fst (arena_init demo (start [])) = Inl OutOfMemory \<and>
   hd (sys (start [0, 500])) = 0 \<and>
   fst (arena_init demo (start [0, 500])) = Inl OutOfMemory \<and>
   sys (snd (arena_init demo (start [500]))) = [] \<and>
   map_option fst (malloc_arena demo 500 64 (snd (arena_init demo (start [500]))))
     = Some (Inl OutOfMemory) \<and>
   sys (the (run demo [Init, Malloc 500 64] (start [500, 100000]))) = [] \<and>
   (\<exists>s'. malloc_arena demo 500 100 (the (run demo [Init, Malloc 500 64] (start [500, 100000])))
          = Some (Inr 100128, s') \<and>
         blocks s' = blocks (the (run demo [Init, Malloc 500 64] (start [500, 100000]))))"
proof -
  let ?sA = "the (run demo [Init, Malloc 500 64] (start [500, 100000]))"
  have sA: "sys ?sA = []"
    by (simp add: model_defs)
  then have hA: "sys ?sA = [] \<or> hd (sys ?sA) = 0"
    by simp
  obtain s' where mA: "malloc_arena demo 500 100 ?sA = Some (Inr 100128, s')"
    by (simp add: model_defs)
  from allocator_failure_raises [OF hA, of demo 500 100] mA
  have "blocks s' = blocks ?sA"
    by blast
  with mA have d: "\<exists>s'. malloc_arena demo 500 100 ?sA = Some (Inr 100128, s') \<and>
         blocks s' = blocks ?sA"
    by blast
  let ?s = "snd (arena_init demo (start [500]))"
  let ?ar = "\<lparr>type = 50, prev = 0, avail = 0, limit = 0, base = 0, bytes = 0, total = 0\<rparr>"
  have h0: "sys (start []) = [] \<or> hd (sys (start [])) = 0"
    by (simp add: start_def)
  have n: "hd (sys (start [0, 500])) = 0"
    by (simp add: start_def)
  then have hn: "sys (start [0, 500]) = [] \<or> hd (sys (start [0, 500])) = 0"
    by simp
  from allocator_failure_raises [OF hn, of demo]
  have c: "fst (arena_init demo (start [0, 500])) = Inl OutOfMemory"
    by blast
  have s: "sys ?s = []"
    by (simp add: arena_init_def try_malloc_def start_def store_def)
  then have h1: "sys ?s = [] \<or> hd (sys ?s) = 0"
    by simp
  have h2: "(500::int) \<noteq> 0 \<and> (0::int) < 64 \<and> deref ?s 500 = Some ?ar \<and>
      limit ?ar - avail ?ar < round_up (sizeof_header demo) 64 \<and> free_list ?s = 0"
    by (simp add: arena_init_def try_malloc_def start_def store_def deref_def demo_def
        round_up_def to_long_def to_size_t_def LONG_MAX_def)
  from allocator_failure_raises [OF h0, of demo]
  have a: "fst (arena_init demo (start [])) = Inl OutOfMemory"
    by blast
  from allocator_failure_raises [OF h1, of demo 500 64 ?ar] h2
  have "\<exists>s'. malloc_arena demo 500 64 ?s = Some (Inl OutOfMemory, s')"
    by blast
  then have b: "map_option fst (malloc_arena demo 500 64 ?s) = Some (Inl OutOfMemory)"
    by auto
  from a b c d n s sA show ?thesis
    by (simp add: start_def)
qed

section \<open>The paths of malloc_arena\<close>





section \<open>calloc_arena\<close>





section \<open>A request of zero bytes\<close>



section \<open>Chunks that meet a full free list\<close>

text \<open>
  Claim C2 says that a chunk retired while the counter is at \<open>THRESHOLD\<close> is returned to
  the system allocator. \<open>arena_clear\<close> calls no release at all. On the arena 500, after an
  allocation and two clears, the counter is \<open>THRESHOLD\<close>; a third clear returns and the block
  100000 is still the allocator's, still the arena's \<^verbatim>\<open>base\<close> and still the head of the
  free list.
\<close>

theorem overflow_chunk_kept:
  "run demo [Init, Malloc 500 64, Clear 500, Clear 500] (start [500, 100000]) \<noteq> None \<and>
   num_free (the (run demo [Init, Malloc 500 64, Clear 500, Clear 500] (start [500, 100000])))
     = THRESHOLD \<and>
   map_option prev
     (deref (the (run demo [Init, Malloc 500 64, Clear 500, Clear 500] (start [500, 100000])))
        500) = Some 100000 \<and>
   fst (arena_clear demo 500
     (the (run demo [Init, Malloc 500 64, Clear 500, Clear 500] (start [500, 100000]))))
     = Inr () \<and>
   fmlookup (blocks (snd (arena_clear demo 500
     (the (run demo [Init, Malloc 500 64, Clear 500, Clear 500] (start [500, 100000]))))))
     100000 = Some 10368 \<and>
   map_option base (deref (snd (arena_clear demo 500
     (the (run demo [Init, Malloc 500 64, Clear 500, Clear 500] (start [500, 100000])))))
     500) = Some 100000 \<and>
   free_list (snd (arena_clear demo 500
     (the (run demo [Init, Malloc 500 64, Clear 500, Clear 500] (start [500, 100000])))))
     = 100000"
  by (simp add: model_defs)

text \<open>
  Claim C2, amended. \<open>arena_clear\<close> never releases a block: the allocator's table after
  the call is the table before it. Once the counter has reached \<open>THRESHOLD\<close> the call
  pushes nothing either: the free list and the counter are unchanged. What the call does
  to an arena with one chunk is to reset it to its own base block: \<^verbatim>\<open>avail\<close> behind the
  header of \<^verbatim>\<open>base\<close>, \<^verbatim>\<open>limit\<close> at \<^verbatim>\<open>base + total\<close>, \<^verbatim>\<open>bytes\<close> 0 and \<^verbatim>\<open>prev\<close>
  \<^verbatim>\<open>NULL\<close>.
\<close>

theorem arena_clear_frees_nothing:
  "blocks (snd (arena_clear cfg arena s)) = blocks s \<and>
   (THRESHOLD \<le> num_free s \<longrightarrow>
      free_list (snd (arena_clear cfg arena s)) = free_list s \<and>
      num_free (snd (arena_clear cfg arena s)) = num_free s) \<and>
   (THRESHOLD \<le> num_free s \<and> deref s arena = Some ar \<and> prev ar \<noteq> arena \<and>
    deref s (prev ar) = Some pr \<and> is_type pr (RAII_ARENA cfg) \<and> prev pr = 0 \<longrightarrow>
      arena_clear cfg arena s =
        (Inr (), store arena (ar\<lparr>avail := base ar + sizeof_header cfg,
           limit := base ar + total ar, bytes := 0, prev := 0\<rparr>) s))"
  using arena_clear_rel [of s cfg arena] clear_overflow_once [of s arena ar pr cfg]
  by (simp add: clear_rel_def)

text \<open>
  The theorem on the arena 500 with its one chunk 100000, where the counter is at
  \<open>THRESHOLD\<close>.
\<close>

theorem arena_clear_frees_nothing_witness:
  "THRESHOLD \<le> num_free
     (the (run demo [Init, Malloc 500 64, Clear 500, Clear 500] (start [500, 100000]))) \<and>
   arena_clear demo 500
     (the (run demo [Init, Malloc 500 64, Clear 500, Clear 500] (start [500, 100000])))
     = (Inr (),
        store 500 \<lparr>type = 50, prev = 0, avail = 100064, limit = 110368, base = 100000,
          bytes = 0, total = 10368\<rparr>
          (the (run demo [Init, Malloc 500 64, Clear 500, Clear 500] (start [500, 100000])))) \<and>
   fmlookup (blocks (snd (arena_clear demo 500
     (the (run demo [Init, Malloc 500 64, Clear 500, Clear 500] (start [500, 100000]))))))
     100000 = Some 10368 \<and>
   free_list (snd (arena_clear demo 500
     (the (run demo [Init, Malloc 500 64, Clear 500, Clear 500] (start [500, 100000])))))
     = 100000"
proof -
  let ?sC = "the (run demo [Init, Malloc 500 64, Clear 500, Clear 500] (start [500, 100000]))"
  let ?ar = "\<lparr>type = 50, prev = 100000, avail = 100000, limit = 110368, base = 100000,
      bytes = 64, total = 10368\<rparr>"
  let ?pr = "\<lparr>type = 30, prev = 0, avail = 100064, limit = 110368, base = 100000,
      bytes = 0, total = 10368\<rparr>"
  have C: "THRESHOLD \<le> num_free ?sC" "free_list ?sC = 100000"
    "deref ?sC 500 = Some ?ar" "deref ?sC (prev ?ar) = Some ?pr"
    "fmlookup (blocks ?sC) 100000 = Some 10368"
    by (simp_all add: model_defs)
  have P: "prev ?ar \<noteq> 500" "is_type ?pr (RAII_ARENA demo)" "prev ?pr = 0"
    by (simp_all add: is_type_def demo_def)
  have rec: "?ar\<lparr>avail := base ?ar + sizeof_header demo, limit := base ?ar + total ?ar,
      bytes := 0, prev := 0\<rparr>
    = \<lparr>type = 50, prev = 0, avail = 100064, limit = 110368, base = 100000, bytes = 0,
        total = 10368\<rparr>"
    by (simp add: demo_def)
  from arena_clear_frees_nothing [of demo 500 ?sC ?ar ?pr]
  have b: "blocks (snd (arena_clear demo 500 ?sC)) = blocks ?sC"
    and f: "THRESHOLD \<le> num_free ?sC \<longrightarrow>
      free_list (snd (arena_clear demo 500 ?sC)) = free_list ?sC"
    and e: "THRESHOLD \<le> num_free ?sC \<and> deref ?sC 500 = Some ?ar \<and> prev ?ar \<noteq> 500 \<and>
      deref ?sC (prev ?ar) = Some ?pr \<and> is_type ?pr (RAII_ARENA demo) \<and> prev ?pr = 0 \<longrightarrow>
      arena_clear demo 500 ?sC =
        (Inr (), store 500 (?ar\<lparr>avail := base ?ar + sizeof_header demo,
           limit := base ?ar + total ?ar, bytes := 0, prev := 0\<rparr>) ?sC)"
    by blast+
  from e C P have 1: "arena_clear demo 500 ?sC =
        (Inr (), store 500 (?ar\<lparr>avail := base ?ar + sizeof_header demo,
           limit := base ?ar + total ?ar, bytes := 0, prev := 0\<rparr>) ?sC)"
    by blast
  from f C have 2: "free_list (snd (arena_clear demo 500 ?sC)) = 100000"
    by simp
  from b C have 3: "fmlookup (blocks (snd (arena_clear demo 500 ?sC))) 100000 = Some 10368"
    by simp
  from C(1) 1 [unfolded rec] 2 3 show ?thesis
    by blast
qed

section \<open>The chunk invariant\<close>

text \<open>
  Claim C3 says that every operation keeps \<open>base \<le> avail \<le> limit\<close>. The pushing branch of
  \<open>arena_clear\<close> moves \<^verbatim>\<open>avail\<close> down by a byte count it has stored, not back to the
  start of the chunk. On the arena 500, after an allocation of 12800 bytes, a clear and an
  allocation of 64 bytes the invariant holds; the next clear subtracts the 12800 that the
  chunk header remembers and leaves \<^verbatim>\<open>avail\<close> at 87328, below \<^verbatim>\<open>base\<close> at 100000. The
  other branch of the loop does keep the invariant (\<open>clear_reset_sound\<close>).
\<close>

theorem clear_breaks_chunk_inv:
  "run demo [Init, Malloc 500 12800, Clear 500, Malloc 500 64, Clear 500] (start [500, 100000])
     \<noteq> None \<and>
   map_option chunk_inv
     (deref (the (run demo [Init, Malloc 500 12800, Clear 500, Malloc 500 64]
        (start [500, 100000]))) 500) = Some True \<and>
   deref (the (run demo [Init, Malloc 500 12800, Clear 500, Malloc 500 64, Clear 500]
        (start [500, 100000]))) 500
     = Some \<lparr>type = 50, prev = 100000, avail = 87328, limit = 123104, base = 100000,
         bytes = 64, total = 23104\<rparr> \<and>
   map_option chunk_inv
     (deref (the (run demo [Init, Malloc 500 12800, Clear 500, Malloc 500 64, Clear 500]
        (start [500, 100000]))) 500) = Some False"
  by (simp add: model_defs chunk_inv_def)

text \<open>
  \<open>malloc_arena\<close> breaks the invariant as well, when the chunk it takes from the free list
  belongs to another arena. The arena 600 grows its block 1000 in place from 10368 to 41152
  bytes and is cleared; the header of the chunk 1000 on the free list still says
  \<^verbatim>\<open>limit = 11368\<close>. The arena 500, with its own block at 100000, then asks for 10304
  bytes, which the chunk holds up to that limit: \<^verbatim>\<open>avail\<close> and \<^verbatim>\<open>limit\<close> of the arena 500
  end at 11368, inside the block of the arena 600 and below its own \<^verbatim>\<open>base\<close>.
\<close>

lemma malloc_breaks_chunk_inv:
  "map_option chunk_inv
     (deref (the (run demo [Init, Malloc 500 64, Init, Malloc 600 64, Malloc 600 20480, Clear 600]
        (start [500, 100000, 600, 1000, 1000]))) 500) = Some True \<and>
   deref (the (run demo
       [Init, Malloc 500 64, Init, Malloc 600 64, Malloc 600 20480, Clear 600, Malloc 500 10304]
       (start [500, 100000, 600, 1000, 1000]))) 500
     = Some \<lparr>type = 50, prev = 1000, avail = 11368, limit = 11368, base = 100000,
         bytes = 10304, total = 10368\<rparr> \<and>
   map_option chunk_inv
     (deref (the (run demo
       [Init, Malloc 500 64, Init, Malloc 600 64, Malloc 600 20480, Clear 600, Malloc 500 10304]
       (start [500, 100000, 600, 1000, 1000]))) 500) = Some False"
  by (simp add: model_defs chunk_inv_def)

section \<open>Capacity after a clear\<close>

text \<open>
  Claim C5 says that after \<open>arena_clear\<close> the capacity is the total of the arena. After
  allocations of 64 and of 640 bytes on the arena 500, the clear takes back 64 bytes only:
  the capacity is 9664 and the total is 10304. The other branch of the loop does give the
  whole capacity back (\<open>clear_reset_sound\<close>).
\<close>

theorem clear_leaves_capacity_short:
  "run demo [Init, Malloc 500 64, Malloc 500 640, Clear 500] (start [500, 100000]) \<noteq> None \<and>
   arena_capacity demo 500
     (the (run demo [Init, Malloc 500 64, Malloc 500 640, Clear 500] (start [500, 100000])))
     = Inr 9664 \<and>
   arena_total demo 500
     (the (run demo [Init, Malloc 500 64, Malloc 500 640, Clear 500] (start [500, 100000])))
     = Inr 10304"
  by (simp add: model_defs)

end
